theory Spec2Isabelle
  imports Main "HOL-Library.Sublist"
begin

section \<open>The element tree\<close>

text \<open>
  The interpreter of \<^verbatim>\<open>PDF-XML_to_HTML.py\<close> works on an lxml element tree. A node of
  that tree is either an element, with the namespace and the local name of its tag, its
  attributes in document order, its direct text (\<^verbatim>\<open>el.text\<close>, \<^verbatim>\<open>None\<close> when there is
  none) and its children in document order, or a node that is not a structural element
  (a comment, a processing instruction or an entity): such a node has no tag name, no
  attributes and no children. A string is the list of the bytes of its UTF-8 encoding.
\<close>

datatype node =
    Element (tag_ns: "string option") (tag_local: string)
            (attrib: "(string \<times> string) list") (direct_text: "string option")
            (children: "node list")
  | Other

text \<open>\<^verbatim>\<open>el.get(key)\<close> and \<^verbatim>\<open>el.get(key, default)\<close>.\<close>

fun get :: "node \<Rightarrow> string \<Rightarrow> string option" where
  "get (Element ns l attrs txt kids) k = map_of attrs k"
| "get Other k = None"

definition get_default :: "node \<Rightarrow> string \<Rightarrow> string \<Rightarrow> string" where
  "get_default el k d = (case get el k of None \<Rightarrow> d | Some v \<Rightarrow> v)"

text \<open>\<^verbatim>\<open>el.text\<close>.\<close>

fun node_text :: "node \<Rightarrow> string option" where
  "node_text (Element ns l attrs txt kids) = txt"
| "node_text Other = None"

text \<open>
  Python's truth value of an optional string (\<^verbatim>\<open>None\<close> and the empty string are
  false) and \<^verbatim>\<open>t or d\<close> for an optional string \<open>t\<close>.
\<close>

definition truthy :: "string option \<Rightarrow> bool" where
  "truthy t = (case t of None \<Rightarrow> False | Some s \<Rightarrow> s \<noteq> [])"

definition py_or :: "string option \<Rightarrow> string \<Rightarrow> string" where
  "py_or t d = (case t of None \<Rightarrow> d | Some s \<Rightarrow> if s = [] then d else s)"

text \<open>
  \<^verbatim>\<open>s.startswith(p)\<close> is \<^term>\<open>prefix p s\<close>, \<^verbatim>\<open>s.endswith(p)\<close> is \<^term>\<open>suffix p s\<close> and
  \<^verbatim>\<open>p in s\<close> is \<^term>\<open>sublist p s\<close>; \<open>join\<close> is \<^verbatim>\<open>sep.join(parts)\<close>.
\<close>

definition nl :: string where
  "nl = [CHR 0x0A]"

fun join :: "string \<Rightarrow> string list \<Rightarrow> string" where
  "join sep [] = []"
| "join sep [x] = x"
| "join sep (x # y # ys) = x @ sep @ join sep (y # ys)"

text \<open>
  \<^verbatim>\<open>str.lower()\<close>. The program only compares a lower-cased string with ASCII literals
  (\<^verbatim>\<open>==\<close>, \<^verbatim>\<open>in\<close>, \<^verbatim>\<open>startswith\<close>, \<^verbatim>\<open>endswith\<close>) and never emits it, so what counts is
  where ASCII characters stand in the result. \<open>lower\<close> is exact there: the letters
  \<^verbatim>\<open>A\<close> to \<^verbatim>\<open>Z\<close> go to \<^verbatim>\<open>a\<close> to \<^verbatim>\<open>z\<close>, the Kelvin sign U+212A (bytes E2 84 AA) goes to
  \<^verbatim>\<open>k\<close>, and the dotted capital I U+0130 (bytes C4 B0) goes to \<^verbatim>\<open>i\<close> followed by U+0307
  (bytes CC 87). These are all the characters whose lower-case form holds an ASCII
  character. The bytes of every other character are left as they are: Python may replace
  such a character by another one, but always by characters outside ASCII, and never by
  nothing, so every comparison with an ASCII literal comes out the same.
\<close>

definition lower_char :: "char \<Rightarrow> char" where
  "lower_char c =
     (case map_of (zip ''ABCDEFGHIJKLMNOPQRSTUVWXYZ'' ''abcdefghijklmnopqrstuvwxyz'') c of
        None \<Rightarrow> c | Some d \<Rightarrow> d)"

fun lower :: "string \<Rightarrow> string" where
  "lower [] = []"
| "lower (c # cs) =
     (if c = CHR 0xE2 then
        (case cs of
           d # e # rest \<Rightarrow>
             if d = CHR 0x84 \<and> e = CHR 0xAA then CHR ''k'' # lower rest else c # lower cs
         | _ \<Rightarrow> c # lower cs)
      else if c = CHR 0xC4 then
        (case cs of
           d # rest \<Rightarrow>
             if d = CHR 0xB0 then CHR ''i'' # CHR 0xCC # CHR 0x87 # lower rest else c # lower cs
         | [] \<Rightarrow> c # lower cs)
      else lower_char c # lower cs)"

text \<open>
  \<^verbatim>\<open>str.strip()\<close> removes the leading and the trailing white space: the characters for
  which \<^verbatim>\<open>str.isspace\<close> holds, here in their UTF-8 encodings: U+0009 to U+000D, U+001C to
  U+0020, U+0085, U+00A0, U+1680, U+2000 to U+200A, U+2028, U+2029, U+202F, U+205F and
  U+3000. \<open>strip_prefixes ws\<close> removes leading members of \<open>ws\<close> for as long as there is
  one.
\<close>

definition whitespace :: "string list" where
  "whitespace =
     [[CHR 0x09], [CHR 0x0A], [CHR 0x0B], [CHR 0x0C], [CHR 0x0D],
      [CHR 0x1C], [CHR 0x1D], [CHR 0x1E], [CHR 0x1F], [CHR 0x20],
      [CHR 0xC2, CHR 0x85], [CHR 0xC2, CHR 0xA0], [CHR 0xE1, CHR 0x9A, CHR 0x80],
      [CHR 0xE2, CHR 0x80, CHR 0x80], [CHR 0xE2, CHR 0x80, CHR 0x81],
      [CHR 0xE2, CHR 0x80, CHR 0x82], [CHR 0xE2, CHR 0x80, CHR 0x83],
      [CHR 0xE2, CHR 0x80, CHR 0x84], [CHR 0xE2, CHR 0x80, CHR 0x85],
      [CHR 0xE2, CHR 0x80, CHR 0x86], [CHR 0xE2, CHR 0x80, CHR 0x87],
      [CHR 0xE2, CHR 0x80, CHR 0x88], [CHR 0xE2, CHR 0x80, CHR 0x89],
      [CHR 0xE2, CHR 0x80, CHR 0x8A], [CHR 0xE2, CHR 0x80, CHR 0xA8],
      [CHR 0xE2, CHR 0x80, CHR 0xA9], [CHR 0xE2, CHR 0x80, CHR 0xAF],
      [CHR 0xE2, CHR 0x81, CHR 0x9F], [CHR 0xE3, CHR 0x80, CHR 0x80]]"

function strip_prefixes :: "string list \<Rightarrow> string \<Rightarrow> string" where
  "strip_prefixes ws s =
     (case filter (\<lambda>w. w \<noteq> [] \<and> prefix w s) ws of
        [] \<Rightarrow> s
      | w # rest \<Rightarrow> strip_prefixes ws (drop (length w) s))"
  by pat_completeness auto
termination
proof (relation "measure (\<lambda>(ws, s). length s)")
  show "wf (measure (\<lambda>(ws, s). length s))"
    by simp
next
  fix ws :: "string list" and s w :: string and rest :: "string list"
  assume "filter (\<lambda>w. w \<noteq> [] \<and> prefix w s) ws = w # rest"
  then have "w \<in> set (filter (\<lambda>w. w \<noteq> [] \<and> prefix w s) ws)"
    by simp
  then have "w \<noteq> []" and "prefix w s"
    by simp_all
  then have "length (drop (length w) s) < length s"
    by (cases s) (auto simp: prefix_def)
  then show "((ws, drop (length w) s), (ws, s)) \<in> measure (\<lambda>(ws, s). length s)"
    by simp
qed

declare strip_prefixes.simps [simp del]

definition lstrip :: "string \<Rightarrow> string" where
  "lstrip s = strip_prefixes whitespace s"

definition rstrip :: "string \<Rightarrow> string" where
  "rstrip s = rev (strip_prefixes (map rev whitespace) (rev s))"

definition strip :: "string \<Rightarrow> string" where
  "strip s = rstrip (lstrip s)"

section \<open>Path queries\<close>

text \<open>
  The descendants of a node in document order, the node itself excluded: what the path
  prefix \<^verbatim>\<open>.//\<close> of \<^verbatim>\<open>findall\<close> and \<^verbatim>\<open>find\<close> ranges over. A tag test of such a path
  compares the whole tag, namespace and local name, as written. \<open>find_node\<close> is
  \<^verbatim>\<open>find\<close>: the first match, or none.
\<close>

fun descendants :: "node \<Rightarrow> node list"
and descendants_list :: "node list \<Rightarrow> node list" where
  "descendants (Element ns l attrs txt kids) = descendants_list kids"
| "descendants Other = []"
| "descendants_list [] = []"
| "descendants_list (k # ks) = k # descendants k @ descendants_list ks"

fun has_tag :: "string option \<Rightarrow> string \<Rightarrow> node \<Rightarrow> bool" where
  "has_tag ns l (Element ns' l' attrs txt kids) = (ns' = ns \<and> l' = l)"
| "has_tag ns l Other = False"

definition findall :: "node \<Rightarrow> string option \<Rightarrow> string \<Rightarrow> node list" where
  "findall el ns l = filter (has_tag ns l) (descendants el)"

definition find_node :: "node \<Rightarrow> string option \<Rightarrow> string \<Rightarrow> node option" where
  "find_node el ns l = (case findall el ns l of [] \<Rightarrow> None | x # xs \<Rightarrow> Some x)"

definition xfa_ns :: string where
  "xfa_ns = ''http://www.xfa.org/schema/xfa-template/3.3/''"

section \<open>Script aggregation\<close>

text \<open>
  \<^verbatim>\<open>extract_all_js\<close>: the loop over \<^verbatim>\<open>findall(".//{xfa-template}script")\<close> appends the
  text of each script element whose text is true, and the parts are joined by a line
  break.
\<close>

fun js_parts :: "node list \<Rightarrow> string list" where
  "js_parts [] = []"
| "js_parts (script_el # rest) =
     (if truthy (node_text script_el) then py_or (node_text script_el) [] # js_parts rest
      else js_parts rest)"

definition extract_all_js :: "node \<Rightarrow> string" where
  "extract_all_js xfa_xml = join nl (js_parts (findall xfa_xml (Some xfa_ns) ''script''))"

section \<open>The node renderer\<close>

text \<open>
  The marker \<^verbatim>\<open>cascade_attr\<close> that \<^verbatim>\<open>process_element\<close> computes from
  \<^verbatim>\<open>el.get("cascade")\<close>: empty unless the attribute is present and not empty.
\<close>

definition cascade_attr_of :: "string option \<Rightarrow> string" where
  \<open>cascade_attr_of cascade =
     (if truthy cascade then '' data-cascade='' @ [CHR 0x27] @ py_or cascade [] @ [CHR 0x27] else [])\<close>

text \<open>
  The fragments (\<^verbatim>\<open>html_parts\<close>) of each branch of \<^verbatim>\<open>process_element\<close> that does not
  recurse, and the opening fragments of the two that do. Each follows the f-strings of
  its branch.
\<close>

definition subform_open :: "node \<Rightarrow> string list" where
  \<open>subform_open el =
     (let sf_name = get_default el ''name'' ''Subform''
      in [''<div class=\'subform\'>'', ''<h2>'' @ sf_name @ ''</h2>''])\<close>

definition button_like :: "node \<Rightarrow> bool" where
  \<open>button_like el =
     (let field_name = get_default el ''name'' ''UnnamedField'';
          ui_type = lower (get_default el ''uiType'' [])
      in sublist ''button'' ui_type \<or>
         prefix ''btn'' (lower field_name) \<or>
         prefix ''button'' (lower field_name) \<or>
         suffix ''btn'' (lower field_name))\<close>

definition field_parts :: "node \<Rightarrow> string \<Rightarrow> string list" where
  \<open>field_parts el cascade_attr =
     (let field_name = get_default el ''name'' ''UnnamedField'';
          field_label = get_default el ''label'' field_name;
          field_value = get_default el ''value'' [];
          field_type = get_default el ''type'' ''text''
      in if button_like el then
           [''<div class=\'field\'>'',
            ''<button type=\'button\' id='' @ [CHR 0x27] @ field_name @ ''\' name='' @ [CHR 0x27] @ field_name @ [CHR 0x27] @
              cascade_attr @ ''>'' @ field_label @ ''</button>'',
            ''</div>'']
         else
           [''<div class=\'field\'>'',
            ''<label for='' @ [CHR 0x27] @ field_name @ ''\'>'' @ field_label @ ''</label>'',
            ''<input type='' @ [CHR 0x27] @ field_type @ ''\' id='' @ [CHR 0x27] @ field_name @ ''\' name='' @ [CHR 0x27] @ field_name @
              ''\' value='' @ [CHR 0x27] @ field_value @ [CHR 0x27] @ cascade_attr @ '' />'',
            ''</div>''])\<close>

definition button_parts :: "node \<Rightarrow> string list" where
  \<open>button_parts el =
     (let btn_text = py_or (node_text el) ''Button'';
          btn_id = get_default el ''name'' ''button''
      in [''<div class=\'button\'>'',
          ''<button type=\'button\' id='' @ [CHR 0x27] @ btn_id @ ''\' name='' @ [CHR 0x27] @ btn_id @ ''\'>'' @ btn_text @
            ''</button>'',
          ''</div>''])\<close>

definition text_parts :: "node \<Rightarrow> string list" where
  \<open>text_parts el =
     (let txt = py_or (node_text el) []
      in [''<div class=\'static-text\'>'' @ txt @ ''</div>''])\<close>

definition textedit_parts :: "node \<Rightarrow> string \<Rightarrow> string list" where
  \<open>textedit_parts el cascade_attr =
     (let field_name = get_default el ''name'' ''TextEdit'';
          field_value = get_default el ''value'' []
      in [''<div class=\'textedit\'>'',
          ''<input type=\'text\' id='' @ [CHR 0x27] @ field_name @ ''\' name='' @ [CHR 0x27] @ field_name @
            ''\' value='' @ [CHR 0x27] @ field_value @ [CHR 0x27] @ cascade_attr @ '' />'',
          ''</div>''])\<close>

definition numericedit_parts :: "node \<Rightarrow> string \<Rightarrow> string list" where
  \<open>numericedit_parts el cascade_attr =
     (let field_name = get_default el ''name'' ''NumericEdit'';
          field_value = get_default el ''value'' []
      in [''<div class=\'numericedit\'>'',
          ''<input type=\'number\' id='' @ [CHR 0x27] @ field_name @ ''\' name='' @ [CHR 0x27] @ field_name @
            ''\' value='' @ [CHR 0x27] @ field_value @ [CHR 0x27] @ cascade_attr @ '' />'',
          ''</div>''])\<close>

text \<open>
  An option of a choice list and a radio button of an exclusive group: the value is the
  \<^verbatim>\<open>value\<close> attribute, or else the text (or the empty string); the label is the text,
  or else the value.
\<close>

definition option_value :: "node \<Rightarrow> string" where
  \<open>option_value item = get_default item ''value'' (py_or (node_text item) [])\<close>

definition option_text :: "node \<Rightarrow> string" where
  \<open>option_text item = py_or (node_text item) (option_value item)\<close>

definition option_part :: "node \<Rightarrow> string" where
  \<open>option_part item =
     ''<option value='' @ [CHR 0x27] @ option_value item @ ''\'>'' @ option_text item @ ''</option>''\<close>

definition choicelist_parts :: "node \<Rightarrow> string \<Rightarrow> string list" where
  \<open>choicelist_parts el cascade_attr =
     (let field_name = get_default el ''name'' ''ChoiceList''
      in [''<div class=\'choicelist\'>'',
          ''<label for='' @ [CHR 0x27] @ field_name @ ''\'>'' @ field_name @ ''</label>'',
          ''<select id='' @ [CHR 0x27] @ field_name @ ''\' name='' @ [CHR 0x27] @ field_name @ [CHR 0x27] @ cascade_attr @ ''>''] @
         map option_part (findall el None ''item'') @
         [''</select>'', ''</div>''])\<close>

definition radio_part :: "string \<Rightarrow> string \<Rightarrow> node \<Rightarrow> string" where
  \<open>radio_part group_name cascade_attr choice =
     ''<label><input type=\'radio\' name='' @ [CHR 0x27] @ group_name @ ''\' value='' @ [CHR 0x27] @ option_value choice @
       [CHR 0x27] @ cascade_attr @ ''/> '' @ option_text choice @ ''</label>''\<close>

definition exclgroup_parts :: "node \<Rightarrow> string \<Rightarrow> string list" where
  \<open>exclgroup_parts el cascade_attr =
     (let group_name = get_default el ''name'' ''ExclGroup''
      in [''<div class=\'exclgroup\'>''] @
         map (radio_part group_name cascade_attr) (findall el None ''exclchoice'') @
         [''</div>''])\<close>

definition checkbutton_parts :: "node \<Rightarrow> string \<Rightarrow> string list" where
  \<open>checkbutton_parts el cascade_attr =
     (let field_name = get_default el ''name'' ''CheckButton''
      in [''<div class=\'checkbutton\'>'',
          ''<label><input type=\'checkbox\' id='' @ [CHR 0x27] @ field_name @ ''\' name='' @ [CHR 0x27] @ field_name @
            [CHR 0x27] @ cascade_attr @ ''/> '' @ field_name @ ''</label>'',
          ''</div>''])\<close>

definition draw_open :: "node \<Rightarrow> string list" where
  \<open>draw_open el =
     [''<div class=\'draw\' style=\'border:1px solid #aaa; padding:5px;\'>''] @
     (if truthy (node_text el) \<and> strip (py_or (node_text el) []) \<noteq> []
      then [''<span>'' @ strip (py_or (node_text el) []) @ ''</span>'']
      else [])\<close>

text \<open>
  \<^verbatim>\<open>process_element\<close>. The nonlocal flag \<^verbatim>\<open>cascade_required\<close> is threaded through
  the traversal: the function takes its value on entry and returns the fragment with its
  value on exit. A node that is not an element gives the empty fragment before anything
  else is looked at. \<open>process_children\<close> is the loop \<^verbatim>\<open>for child in el\<close> of the
  branches that recurse.
\<close>

fun process_element :: "node \<Rightarrow> bool \<Rightarrow> string \<times> bool"
and process_children :: "node list \<Rightarrow> bool \<Rightarrow> string list \<times> bool" where
  "process_element Other cascade_required = ([], cascade_required)"
| "process_element (Element ns lname attrs txt kids) cascade_required =
     (let el = Element ns lname attrs txt kids;
          tag = lower lname;
          cascade = get el ''cascade'';
          cascade_attr = cascade_attr_of cascade;
          required = (if truthy cascade then True else cascade_required)
      in if tag = ''subform'' then
           (case process_children kids required of
              (parts, required') \<Rightarrow> (join nl (subform_open el @ parts @ [''</div>'']), required'))
         else if tag = ''field'' then (join nl (field_parts el cascade_attr), required)
         else if tag = ''button'' then (join nl (button_parts el), required)
         else if tag = ''text'' then (join nl (text_parts el), required)
         else if tag = ''textedit'' then (join nl (textedit_parts el cascade_attr), required)
         else if tag = ''numericedit'' then (join nl (numericedit_parts el cascade_attr), required)
         else if tag = ''choicelist'' then (join nl (choicelist_parts el cascade_attr), required)
         else if tag = ''draw'' then
           (case process_children kids required of
              (parts, required') \<Rightarrow> (join nl (draw_open el @ parts @ [''</div>'']), required'))
         else if tag = ''exclgroup'' then (join nl (exclgroup_parts el cascade_attr), required)
         else if tag = ''checkbutton'' then (join nl (checkbutton_parts el cascade_attr), required)
         else
           (case process_children kids required of
              (parts, required') \<Rightarrow> (join nl parts, required')))"
| "process_children [] cascade_required = ([], cascade_required)"
| "process_children (child # rest) cascade_required =
     (case process_element child cascade_required of
        (part, required) \<Rightarrow>
          (case process_children rest required of
             (parts, required') \<Rightarrow> (part # parts, required')))"

section \<open>The generated runtime\<close>

text \<open>
  The script texts that \<^verbatim>\<open>build_ui_interpreter_stacked\<close> holds as literals, one line of
  the source per line. \<open>cascade_script\<close> is the value \<^verbatim>\<open>cascade_js\<close> takes when the flag
  is set. The literal \<^verbatim>\<open>xfa_runtime_js\<close> is cut at its blank lines into the host and form
  objects, the font object, the guarded executor and the advanced namespace.
\<close>

definition cascade_script :: string where
  \<open>cascade_script =
  ''\<newline>'' @
  ''document.addEventListener(\'DOMContentLoaded\', function(){\<newline>'' @
  ''    var inputs = document.querySelectorAll("input[data-cascade], button[data-cascade]");\<newline>'' @
  ''    inputs.forEach(function(input){\<newline>'' @
  ''        input.addEventListener(\'input\', function(){\<newline>'' @
  ''            var group = input.getAttribute("data-cascade");\<newline>'' @
  ''            var cascadeInputs = document.querySelectorAll("input[data-cascade=\'" + group + "\'], button[data-cascade=\'" + group + "\']");\<newline>'' @
  ''            cascadeInputs.forEach(function(cInput){\<newline>'' @
  ''                if(cInput !== input){\<newline>'' @
  ''                    cInput.value = input.value;\<newline>'' @
  ''                }\<newline>'' @
  ''            });\<newline>'' @
  ''        });\<newline>'' @
  ''    });\<newline>'' @
  ''});\<newline>''\<close>

definition adapter :: string where
  \<open>adapter =
  ''\<newline>'' @
  ''if (typeof schCar === \'undefined\') {\<newline>'' @
  ''    var schCar = {\<newline>'' @
  ''        schEnt: function(str) {\<newline>'' @
  ''            return str.replace(/&/g, \'&amp;\').replace(/</g, \'&lt;\').replace(/>/g, \'&gt;\');\<newline>'' @
  ''        }\<newline>'' @
  ''    };\<newline>'' @
  ''}\<newline>'' @
  ''\<newline>'' @
  ''// Function to translate Acrobat-specific JS to web-compatible JS.\<newline>'' @
  ''// This is a simple example. You can extend this to perform more complex translations.\<newline>'' @
  ''function translateAcrobatJS(acrobatJS) {\<newline>'' @
  ''    // For example, replace "app.alert" with "window.xfa.host.messageBox"\<newline>'' @
  ''    var webJS = acrobatJS.replace(/app'' @ [CHR 0x5C] @ ''.alert/g, "window.xfa.host.messageBox");\<newline>'' @
  ''    return webJS;\<newline>'' @
  ''}\<newline>''\<close>

definition xfa_host_form_js :: string where
  \<open>xfa_host_form_js =
  ''\<newline>'' @
  ''// Advanced XFA JavaScript Runtime Support\<newline>'' @
  ''if (typeof window.xfa === \'undefined\') {\<newline>'' @
  ''    window.xfa = {};\<newline>'' @
  ''}\<newline>'' @
  ''window.xfa.host = {\<newline>'' @
  ''    messageBox: function(message, title, iconType) {\<newline>'' @
  ''        // For advanced runtime, replace alert with a custom modal if desired.\<newline>'' @
  ''        alert(title ? `${title}: ${message}` : message);\<newline>'' @
  ''    },\<newline>'' @
  ''    gotoURL: function(url) {\<newline>'' @
  ''        window.location.href = url;\<newline>'' @
  ''    },\<newline>'' @
  ''    beep: function(type) {\<newline>'' @
  ''        const audio = new Audio(\'https://www.soundjay.com/button/beep-07.wav\');\<newline>'' @
  ''        audio.play();\<newline>'' @
  ''    }\<newline>'' @
  ''};\<newline>'' @
  ''window.xfa.form = {\<newline>'' @
  ''    resolveNode: function(path) {\<newline>'' @
  ''        return document.querySelector(`[name=\'${path}\']`);\<newline>'' @
  ''    },\<newline>'' @
  ''    execEvent: function(eventName, node) {\<newline>'' @
  ''        if (node && node.dispatchEvent) {\<newline>'' @
  ''            node.dispatchEvent(new Event(eventName, { bubbles: true }));\<newline>'' @
  ''        }\<newline>'' @
  ''    }\<newline>'' @
  ''};\<newline>'' @
  ''\<newline>''\<close>

definition xfa_font_js :: string where
  \<open>xfa_font_js =
  ''// Define a default font object to prevent "undefined" errors.\<newline>'' @
  ''if (typeof window.xfa.font === \'undefined\') {\<newline>'' @
  ''    window.xfa.font = {\<newline>'' @
  ''        measureText: function(text) {\<newline>'' @
  ''            return { width: text.length * 7 };\<newline>'' @
  ''        }\<newline>'' @
  ''    };\<newline>'' @
  ''};\<newline>'' @
  ''\<newline>''\<close>

definition xfa_executor_js :: string where
  \<open>xfa_executor_js =
  ''function executeXFAJavaScript(jsCode) {\<newline>'' @
  ''    try {\<newline>'' @
  ''        new Function(jsCode)();\<newline>'' @
  ''    } catch (error) {\<newline>'' @
  ''        console.error(\'Error executing XFA script:\', error);\<newline>'' @
  ''    }\<newline>'' @
  ''}\<newline>'' @
  ''\<newline>''\<close>

definition xfa_advanced_js :: string where
  \<open>xfa_advanced_js =
  ''// Advanced runtime features: asynchronous execution and event registration.\<newline>'' @
  ''window.xfa.advanced = {\<newline>'' @
  ''    async executeAsync(jsCode) {\<newline>'' @
  ''        try {\<newline>'' @
  ''            const asyncFunc = new Function(\'return (async () => {\' + jsCode + \'})\')();\<newline>'' @
  ''            await asyncFunc;\<newline>'' @
  ''        } catch (error) {\<newline>'' @
  ''            console.error(\'Error executing async XFA script:\', error);\<newline>'' @
  ''        }\<newline>'' @
  ''    },\<newline>'' @
  ''    registerEventHandler: function(selector, eventName, handler) {\<newline>'' @
  ''        const elements = document.querySelectorAll(selector);\<newline>'' @
  ''        elements.forEach(function(el) {\<newline>'' @
  ''            el.addEventListener(eventName, handler);\<newline>'' @
  ''        });\<newline>'' @
  ''    }\<newline>'' @
  ''};\<newline>''\<close>

definition default_bindings_js :: string where
  \<open>default_bindings_js =
  ''\<newline>'' @
  ''document.addEventListener("DOMContentLoaded", function(){\<newline>'' @
  ''    document.body.addEventListener("click", function(event){\<newline>'' @
  ''        var target = event.target;\<newline>'' @
  ''        if(target.tagName.toLowerCase() === "button"){\<newline>'' @
  ''            // Check if this button has an Acrobat JS snippet attached.\<newline>'' @
  ''            if(target.hasAttribute("data-acrobat-js")){\<newline>'' @
  ''                // Lazy-load the XFA runtime if not already loaded.\<newline>'' @
  ''                if(typeof window.xfaRuntimeLoaded === "undefined" || !window.xfaRuntimeLoaded){\<newline>'' @
  ''                    console.log("Loading XFA runtime...");\<newline>'' @
  ''                    // (In a real scenario, you might load additional runtime code here)\<newline>'' @
  ''                    window.xfaRuntimeLoaded = true;\<newline>'' @
  ''                }\<newline>'' @
  ''                var acrobatJS = target.getAttribute("data-acrobat-js");\<newline>'' @
  ''                var translatedJS = translateAcrobatJS(acrobatJS);\<newline>'' @
  ''                try {\<newline>'' @
  ''                    new Function(translatedJS)();\<newline>'' @
  ''                } catch(error) {\<newline>'' @
  ''                    console.error("Error executing translated JS:", error);\<newline>'' @
  ''                }\<newline>'' @
  ''            } else {\<newline>'' @
  ''                console.log("Button clicked (default binding): " + target.id);\<newline>'' @
  ''                window.xfa.host.messageBox("Default action for " + target.id);\<newline>'' @
  ''            }\<newline>'' @
  ''        }\<newline>'' @
  ''    });\<newline>'' @
  ''});\<newline>''\<close>

definition html_doc_head :: string where
  \<open>html_doc_head =
  ''<!DOCTYPE html>\<newline>'' @
  ''<html>\<newline>'' @
  ''<head>\<newline>'' @
  ''  <meta charset="UTF-8">\<newline>'' @
  ''  <title>''\<close>

definition html_doc_style :: string where
  \<open>html_doc_style =
  ''</title>\<newline>'' @
  ''  <meta name="viewport" content="width=device-width, initial-scale=1.0">\<newline>'' @
  ''  <style>\<newline>'' @
  ''    body {\<newline>'' @
  ''      margin: 0;\<newline>'' @
  ''      padding: 20px;\<newline>'' @
  ''      font-family: Arial, sans-serif;\<newline>'' @
  ''      background: #eee;\<newline>'' @
  ''    }\<newline>'' @
  ''    .xfa-container {\<newline>'' @
  ''      display: flex;\<newline>'' @
  ''      flex-direction: column;\<newline>'' @
  ''      gap: 20px;\<newline>'' @
  ''      background: #fff;\<newline>'' @
  ''      padding: 20px;\<newline>'' @
  ''      box-shadow: 0 0 10px rgba(0,0,0,0.1);\<newline>'' @
  ''    }\<newline>'' @
  ''    .subform, .field, .button, .static-text, .textedit, .numericedit, .choicelist, .draw, .exclgroup, .checkbutton {\<newline>'' @
  ''      display: block;\<newline>'' @
  ''      width: 100%;\<newline>'' @
  ''      position: relative;\<newline>'' @
  ''      margin-bottom: 10px;\<newline>'' @
  ''    }\<newline>'' @
  ''    .subform {\<newline>'' @
  ''      border: 1px dashed #888;\<newline>'' @
  ''      padding: 10px;\<newline>'' @
  ''    }\<newline>'' @
  ''    .field, .button, .static-text, .textedit, .numericedit, .choicelist, .draw, .exclgroup, .checkbutton {\<newline>'' @
  ''      background: #fff;\<newline>'' @
  ''      border: 1px solid #ccc;\<newline>'' @
  ''      padding: 10px;\<newline>'' @
  ''    }\<newline>'' @
  ''    label {\<newline>'' @
  ''      display: block;\<newline>'' @
  ''      margin-bottom: 5px;\<newline>'' @
  ''      font-weight: bold;\<newline>'' @
  ''    }\<newline>'' @
  ''    input[type="text"], input[type="number"] {\<newline>'' @
  ''      padding: 5px;\<newline>'' @
  ''      width: 100%;\<newline>'' @
  ''      box-sizing: border-box;\<newline>'' @
  ''    }\<newline>'' @
  ''    button {\<newline>'' @
  ''      padding: 10px 15px;\<newline>'' @
  ''      cursor: pointer;\<newline>'' @
  ''      font-size: 14px;\<newline>'' @
  ''    }\<newline>'' @
  ''    select {\<newline>'' @
  ''      padding: 5px;\<newline>'' @
  ''      width: 100%;\<newline>'' @
  ''      box-sizing: border-box;\<newline>'' @
  ''    }\<newline>'' @
  ''    .static-text {\<newline>'' @
  ''      background: #f9f9f9;\<newline>'' @
  ''      border: 1px solid #ddd;\<newline>'' @
  ''    }\<newline>'' @
  ''  </style>\<newline>'' @
  ''</head>\<newline>'' @
  ''<body>\<newline>''\<close>

definition html_doc_script_open :: string where
  \<open>html_doc_script_open =
  ''\<newline>'' @
  ''<script>\<newline>''\<close>

definition html_doc_tail :: string where
  \<open>html_doc_tail =
  ''\<newline>'' @
  ''</script>\<newline>'' @
  ''</body>\<newline>'' @
  ''</html>\<newline>''\<close>

definition xfa_runtime_js :: string where
  "xfa_runtime_js = xfa_host_form_js @ xfa_font_js @ xfa_executor_js @ xfa_advanced_js"

section \<open>The document assembler\<close>

text \<open>
  \<^verbatim>\<open>build_ui_interpreter_stacked\<close>. The flag starts false; the template is the first
  descendant \<^verbatim>\<open>{xfa-template}template\<close> of the tree, or the tree itself when there is
  none. The local variables of the function are the definitions below, each a function
  of the tree; the document is the f-string \<^verbatim>\<open>html_doc\<close> around them.
\<close>

definition ui_title :: string where
  "ui_title = ''Stacked Interpreted XFA Form''"

definition template_of :: "node \<Rightarrow> node" where
  "template_of xfa_xml =
     (case find_node xfa_xml (Some xfa_ns) ''template'' of None \<Rightarrow> xfa_xml | Some template \<Rightarrow> template)"

definition body_content :: "node \<Rightarrow> string" where
  \<open>body_content xfa_xml =
     ''<div class=\'xfa-container\'>\<newline>'' @ fst (process_element (template_of xfa_xml) False) @
     ''\<newline></div>''\<close>

definition cascade_required :: "node \<Rightarrow> bool" where
  "cascade_required xfa_xml = snd (process_element (template_of xfa_xml) False)"

definition cascade_js :: "node \<Rightarrow> string" where
  "cascade_js xfa_xml = (if cascade_required xfa_xml then cascade_script else [])"

definition ui_js :: "node \<Rightarrow> string" where
  "ui_js xfa_xml =
     adapter @ nl @ xfa_runtime_js @ nl @ extract_all_js xfa_xml @ nl @ default_bindings_js"

definition full_js :: "node \<Rightarrow> string" where
  "full_js xfa_xml = cascade_js xfa_xml @ nl @ ui_js xfa_xml"

definition build_ui_interpreter_stacked :: "node \<Rightarrow> string" where
  "build_ui_interpreter_stacked xfa_xml =
     html_doc_head @ ui_title @ html_doc_style @ body_content xfa_xml @
     html_doc_script_open @ full_js xfa_xml @ html_doc_tail"

section \<open>Notions the properties are stated with\<close>

text \<open>
  All the nodes of a tree in document order, and the nodes that \<^verbatim>\<open>process_element\<close> is
  called on when it is called on a node: the node itself and, unless its branch is one of
  the eight that do not loop over the children, the nodes visited from each child.
\<close>

definition all_nodes :: "node \<Rightarrow> node list" where
  "all_nodes t = t # descendants t"

definition recurses :: "string \<Rightarrow> bool" where
  "recurses tag =
     (tag \<notin> set [''field'', ''button'', ''text'', ''textedit'', ''numericedit'', ''choicelist'',
                 ''exclgroup'', ''checkbutton''])"

fun visited :: "node \<Rightarrow> node list"
and visited_list :: "node list \<Rightarrow> node list" where
  "visited (Element ns l attrs txt kids) =
     Element ns l attrs txt kids # (if recurses (lower l) then visited_list kids else [])"
| "visited Other = [Other]"
| "visited_list [] = []"
| "visited_list (k # ks) = visited k @ visited_list ks"

text \<open>
  The tag that \<^verbatim>\<open>process_element\<close> dispatches on: the lower-cased local name of an
  element, and none for a node that is not an element.
\<close>

fun tag_of :: "node \<Rightarrow> string option" where
  "tag_of (Element ns l attrs txt kids) = Some (lower l)"
| "tag_of Other = None"

section \<open>Auxiliary facts\<close>

subsection \<open>The branches that do not recurse\<close>

lemma fst_process_element_leaf:
  "tag_of el = Some ''field'' \<Longrightarrow>
     fst (process_element el req) = join nl (field_parts el (cascade_attr_of (get el ''cascade'')))"
  "tag_of el = Some ''button'' \<Longrightarrow>
     fst (process_element el req) = join nl (button_parts el)"
  "tag_of el = Some ''text'' \<Longrightarrow>
     fst (process_element el req) = join nl (text_parts el)"
  "tag_of el = Some ''textedit'' \<Longrightarrow>
     fst (process_element el req) = join nl (textedit_parts el (cascade_attr_of (get el ''cascade'')))"
  "tag_of el = Some ''numericedit'' \<Longrightarrow>
     fst (process_element el req) = join nl (numericedit_parts el (cascade_attr_of (get el ''cascade'')))"
  "tag_of el = Some ''choicelist'' \<Longrightarrow>
     fst (process_element el req) = join nl (choicelist_parts el (cascade_attr_of (get el ''cascade'')))"
  "tag_of el = Some ''exclgroup'' \<Longrightarrow>
     fst (process_element el req) = join nl (exclgroup_parts el (cascade_attr_of (get el ''cascade'')))"
  "tag_of el = Some ''checkbutton'' \<Longrightarrow>
     fst (process_element el req) = join nl (checkbutton_parts el (cascade_attr_of (get el ''cascade'')))"
  by (cases el; simp add: Let_def)+

lemma option_part_eq:
  \<open>option_part =
     (\<lambda>item. ''<option value='' @ [CHR 0x27] @ option_value item @ ''\'>'' @ option_text item @
        ''</option>'')\<close>
  by (rule ext) (simp add: option_part_def)

lemma radio_part_eq:
  \<open>radio_part group_name cascade_attr =
     (\<lambda>choice. ''<label><input type=\'radio\' name='' @ [CHR 0x27] @ group_name @ ''\' value='' @
        [CHR 0x27] @ option_value choice @ [CHR 0x27] @ cascade_attr @ ''/> '' @ option_text choice @
        ''</label>'')\<close>
  by (rule ext) (simp add: radio_part_def)

lemma option_value_eq:
  "option_value item =
     (case get item ''value'' of Some v \<Rightarrow> v
      | None \<Rightarrow> (case node_text item of Some s \<Rightarrow> s | None \<Rightarrow> []))"
  by (simp add: option_value_def get_default_def py_or_def split: option.splits)

lemma option_text_eq:
  "option_text item =
     (case node_text item of Some s \<Rightarrow> if s = [] then option_value item else s
      | None \<Rightarrow> option_value item)"
  by (simp add: option_text_def py_or_def split: option.splits)

subsection \<open>The flag after a traversal\<close>

lemma snd_process_element_Element:
  "snd (process_element (Element ns l attrs t kids) req) =
     (if recurses (lower l)
      then snd (process_children kids (req \<or> truthy (map_of attrs ''cascade'')))
      else (req \<or> truthy (map_of attrs ''cascade'')))"
  by (simp add: Let_def recurses_def split: prod.splits)

lemma snd_process_children_Cons:
  "snd (process_children (k # ks) req) = snd (process_children ks (snd (process_element k req)))"
  by (simp split: prod.splits)

lemma flag_after_traversal:
  "snd (process_element el req) = (req \<or> (\<exists>n \<in> set (visited el). truthy (get n ''cascade'')))"
  "snd (process_children els req) =
     (req \<or> (\<exists>n \<in> set (visited_list els). truthy (get n ''cascade'')))"
proof (induction el and els arbitrary: req and req rule: visited_visited_list.induct)
  case (1 ns l attrs t kids)
  show ?case
    unfolding snd_process_element_Element using "1.IH" by auto
next
  case 2
  show ?case by (simp add: truthy_def)
next
  case 3
  show ?case by simp
next
  case (4 k ks)
  show ?case
    unfolding snd_process_children_Cons by (auto simp: "4.IH")
qed

subsection \<open>Visited nodes are nodes of the tree\<close>

lemma descendants_trans:
  "n \<in> set (descendants el) \<Longrightarrow> set (descendants n) \<subseteq> set (descendants el)"
  "n \<in> set (descendants_list els) \<Longrightarrow> set (descendants n) \<subseteq> set (descendants_list els)"
proof (induction el and els rule: descendants_descendants_list.induct)
  case (4 k ks)
  then show ?case by auto
qed auto

lemma visited_subset:
  "set (visited el) \<subseteq> set (all_nodes el)"
  "set (visited_list els) \<subseteq> set (descendants_list els)"
proof (induction el and els rule: visited_visited_list.induct)
  case (1 ns l attrs t kids)
  then show ?case by (auto simp: all_nodes_def)
next
  case (4 k ks)
  then show ?case by (auto simp: all_nodes_def)
qed (auto simp: all_nodes_def)

lemma filter_head_mem: "filter P xs = x # ys \<Longrightarrow> x \<in> set xs"
proof -
  assume "filter P xs = x # ys"
  then have "x \<in> set (filter P xs)" by simp
  then show ?thesis by simp
qed

lemma template_of_in_all_nodes: "template_of t \<in> set (all_nodes t)"
  by (auto simp: template_of_def find_node_def findall_def all_nodes_def split: list.splits
      dest: filter_head_mem)

lemma visited_template_subset: "set (visited (template_of t)) \<subseteq> set (all_nodes t)"
proof -
  have "set (all_nodes (template_of t)) \<subseteq> set (all_nodes t)"
    using template_of_in_all_nodes [of t] descendants_trans(1) [of "template_of t" t]
    by (auto simp: all_nodes_def)
  with visited_subset(1) [of "template_of t"] show ?thesis by blast
qed

lemma cascade_script_nonempty: "cascade_script \<noteq> []"
  by (simp add: cascade_script_def)

subsection \<open>The parts of the aggregated script\<close>

lemma js_parts_eq:
  "js_parts els = filter (\<lambda>s. s \<noteq> []) (map (\<lambda>n. py_or (node_text n) []) els)"
  by (induction els) (auto simp: truthy_def py_or_def split: option.splits)

subsection \<open>The fragment and the flag\<close>

lemma fragment_independent_of_flag:
  "fst (process_element el req) = fst (process_element el req')"
  "fst (process_children els req) = fst (process_children els req')"
proof (induction el and els arbitrary: req req' and req req'
    rule: descendants_descendants_list.induct)
  case (1 ns l attrs t kids)
  have kids: "fst (process_children kids (if truthy (map_of attrs ''cascade'') then True else req)) =
      fst (process_children kids (if truthy (map_of attrs ''cascade'') then True else req'))"
    by (rule "1.IH")
  show ?case
    using kids by (simp add: Let_def case_prod_beta)
next
  case 2
  show ?case by simp
next
  case 3
  show ?case by simp
next
  case (4 k ks)
  have "fst (process_children ks (snd (process_element k req))) =
        fst (process_children ks (snd (process_element k req')))"
    by (rule "4.IH")
  with "4.IH"(1) [of req req'] show ?case
    by (simp add: case_prod_beta)
qed

subsection \<open>Stripping white space\<close>

lemma whitespace_nonempty: "w \<in> set whitespace \<Longrightarrow> w \<noteq> []"
  by (auto simp: whitespace_def)

lemma strip_prefixes_decomp: "\<exists>ls. set ls \<subseteq> set ws \<and> s = concat ls @ strip_prefixes ws s"
proof (induction ws s rule: strip_prefixes.induct)
  case (1 ws s)
  show ?case
  proof (cases "filter (\<lambda>w. w \<noteq> [] \<and> prefix w s) ws")
    case Nil
    then have "strip_prefixes ws s = s"
      by (subst strip_prefixes.simps) simp
    then have "set [] \<subseteq> set ws \<and> s = concat [] @ strip_prefixes ws s"
      by simp
    then show ?thesis by blast
  next
    case (Cons w rest)
    then have "w \<in> set (filter (\<lambda>w. w \<noteq> [] \<and> prefix w s) ws)"
      by simp
    then have w: "w \<in> set ws" "prefix w s"
      by simp_all
    from Cons have step: "strip_prefixes ws s = strip_prefixes ws (drop (length w) s)"
      by (subst strip_prefixes.simps) simp
    from "1.IH" [OF Cons] obtain ls where
      ls: "set ls \<subseteq> set ws" "drop (length w) s = concat ls @ strip_prefixes ws (drop (length w) s)"
      by blast
    from w(2) have "s = w @ drop (length w) s"
      by (auto simp: prefix_def)
    with ls(2) step have "s = concat (w # ls) @ strip_prefixes ws s"
      by simp
    moreover from w(1) ls(1) have "set (w # ls) \<subseteq> set ws"
      by simp
    ultimately show ?thesis by blast
  qed
qed

lemma strip_prefixes_no_prefix:
  "w \<in> set ws \<Longrightarrow> w \<noteq> [] \<Longrightarrow> \<not> prefix w (strip_prefixes ws s)"
proof (induction ws s rule: strip_prefixes.induct)
  case (1 ws s)
  show ?case
  proof (cases "filter (\<lambda>w. w \<noteq> [] \<and> prefix w s) ws")
    case Nil
    then have "strip_prefixes ws s = s"
      by (subst strip_prefixes.simps) simp
    moreover from Nil "1.prems" have "\<not> prefix w s"
      by (auto simp: filter_empty_conv)
    ultimately show ?thesis by simp
  next
    case (Cons v rest)
    then have "strip_prefixes ws s = strip_prefixes ws (drop (length v) s)"
      by (subst strip_prefixes.simps) simp
    with "1.IH" [OF Cons "1.prems"] show ?thesis by simp
  qed
qed

lemma strip_keeps_the_middle:
  "\<exists>ls rs. set ls \<subseteq> set whitespace \<and> set rs \<subseteq> set whitespace \<and>
     s = concat ls @ strip s @ concat rs"
proof -
  obtain ls where ls: "set ls \<subseteq> set whitespace" "s = concat ls @ lstrip s"
    unfolding lstrip_def using strip_prefixes_decomp [of whitespace s] by blast
  obtain rl where rl: "set rl \<subseteq> set (map rev whitespace)"
      "rev (lstrip s) = concat rl @ strip_prefixes (map rev whitespace) (rev (lstrip s))"
    using strip_prefixes_decomp [of "map rev whitespace" "rev (lstrip s)"] by blast
  from rl(2) have "rev (rev (lstrip s)) =
      rev (concat rl @ strip_prefixes (map rev whitespace) (rev (lstrip s)))"
    by simp
  then have "lstrip s = strip s @ concat (map rev (rev rl))"
    by (simp add: strip_def rstrip_def rev_concat)
  with ls(2) have "s = concat ls @ strip s @ concat (map rev (rev rl))"
    by simp
  moreover from rl(1) have "set (map rev (rev rl)) \<subseteq> set whitespace"
    by auto
  ultimately show ?thesis using ls(1) by blast
qed

lemma strip_leaves_no_whitespace:
  assumes "w \<in> set whitespace"
  shows "\<not> prefix w (strip s)" and "\<not> suffix w (strip s)"
proof -
  from assms have ne: "w \<noteq> []"
    by (rule whitespace_nonempty)
  from assms ne have "\<not> prefix (rev w) (strip_prefixes (map rev whitespace) (rev (lstrip s)))"
    by (intro strip_prefixes_no_prefix) auto
  then show "\<not> suffix w (strip s)"
    by (simp add: strip_def rstrip_def suffix_to_prefix)
  obtain rl where "rev (lstrip s) = concat rl @ strip_prefixes (map rev whitespace) (rev (lstrip s))"
    using strip_prefixes_decomp [of "map rev whitespace" "rev (lstrip s)"] by blast
  then have "rev (rev (lstrip s)) =
      rev (concat rl @ strip_prefixes (map rev whitespace) (rev (lstrip s)))"
    by simp
  then have "lstrip s = strip s @ rev (concat rl)"
    by (simp add: strip_def rstrip_def)
  then have "prefix (strip s) (lstrip s)"
    by (rule prefixI)
  moreover from assms ne have "\<not> prefix w (lstrip s)"
    unfolding lstrip_def by (rule strip_prefixes_no_prefix)
  ultimately show "\<not> prefix w (strip s)"
    using prefix_order.trans by blast
qed

section \<open>The linkage script\<close>

text \<open>
  C1, as the code has it. The linkage script stands in the document exactly when the
  traversal, started at the template, visits a node whose \<^verbatim>\<open>cascade\<close> attribute is present
  and not empty; the script is then the fixed text \<open>cascade_script\<close>, which is not empty.
  In particular, when no node anywhere in the tree carries the attribute, the script is
  absent.
\<close>

theorem linkage_script_iff_visited_cascade:
  "cascade_js xfa_xml =
     (if \<exists>n \<in> set (visited (template_of xfa_xml)). truthy (get n ''cascade'')
      then cascade_script else []) \<and>
   cascade_script \<noteq> [] \<and>
   ((\<forall>n \<in> set (all_nodes xfa_xml). get n ''cascade'' = None) \<longrightarrow> cascade_js xfa_xml = [])"
proof -
  have present: "cascade_js xfa_xml =
     (if \<exists>n \<in> set (visited (template_of xfa_xml)). truthy (get n ''cascade'')
      then cascade_script else [])"
    by (simp add: cascade_js_def cascade_required_def flag_after_traversal(1))
  have absent: "cascade_js xfa_xml = []" if "\<forall>n \<in> set (all_nodes xfa_xml). get n ''cascade'' = None"
    unfolding present using that visited_template_subset [of xfa_xml] by (auto simp: truthy_def)
  from present absent cascade_script_nonempty show ?thesis by blast
qed

text \<open>
  The theorem at three trees: a container with a field that carries \<^verbatim>\<open>cascade="grp1"\<close>,
  where the script is present; the same container with a field that carries none, where
  it is absent; and a check button whose tag is spelt with the Kelvin sign, which
  \<^verbatim>\<open>lower()\<close> turns into \<^verbatim>\<open>checkbutton\<close>, so that the field under it is not visited and
  the script is absent.
\<close>

theorem linkage_script_iff_visited_cascade_witness:
  "cascade_js (Element (Some xfa_ns) ''subform'' [(''name'', ''Page1'')] None
      [Element (Some xfa_ns) ''field'' [(''name'', ''a''), (''cascade'', ''grp1'')] None []]) =
     cascade_script \<and>
   cascade_js (Element (Some xfa_ns) ''subform'' [(''name'', ''Page1'')] None
      [Element (Some xfa_ns) ''field'' [(''name'', ''a'')] None []]) = [] \<and>
   cascade_js (Element None (''chec'' @ [CHR 0xE2, CHR 0x84, CHR 0xAA] @ ''Button'') [] None
      [Element None ''field'' [(''name'', ''a''), (''cascade'', ''grp1'')] None []]) = []"
  using
    linkage_script_iff_visited_cascade [of "Element (Some xfa_ns) ''subform'' [(''name'', ''Page1'')] None
      [Element (Some xfa_ns) ''field'' [(''name'', ''a''), (''cascade'', ''grp1'')] None []]"]
    linkage_script_iff_visited_cascade [of "Element (Some xfa_ns) ''subform'' [(''name'', ''Page1'')] None
      [Element (Some xfa_ns) ''field'' [(''name'', ''a'')] None []]"]
    linkage_script_iff_visited_cascade [of
      "Element None (''chec'' @ [CHR 0xE2, CHR 0x84, CHR 0xAA] @ ''Button'') [] None
        [Element None ''field'' [(''name'', ''a''), (''cascade'', ''grp1'')] None []]"]
  by (simp add: template_of_def find_node_def findall_def all_nodes_def recurses_def truthy_def lower_char_def xfa_ns_def)

text \<open>
  C1 as the specification states it fails: in this tree the text edit under the field
  carries \<^verbatim>\<open>cascade="grp1"\<close> and is a node of the tree, but the field branch does not loop
  over its children, so the flag stays false and the script is absent.
\<close>

theorem linkage_script_counterexample:
  "get (Element None ''textEdit'' [(''cascade'', ''grp1'')] None []) ''cascade'' = Some ''grp1'' \<and>
   Element None ''textEdit'' [(''cascade'', ''grp1'')] None [] \<in>
     set (all_nodes (Element None ''subform'' [] None
       [Element None ''field'' [(''name'', ''f1'')] None
         [Element None ''textEdit'' [(''cascade'', ''grp1'')] None []]])) \<and>
   cascade_js (Element None ''subform'' [] None
       [Element None ''field'' [(''name'', ''f1'')] None
         [Element None ''textEdit'' [(''cascade'', ''grp1'')] None []]]) = []"
  by (simp add: all_nodes_def cascade_js_def cascade_required_def template_of_def find_node_def
      findall_def truthy_def lower_char_def Let_def xfa_ns_def)

section \<open>The linkage marker\<close>

text \<open>
  C2 at a trigger button that carries \<^verbatim>\<open>cascade="grp1"\<close>: the flag is set, but the emitted
  button has no \<^verbatim>\<open>data-cascade\<close> marker, since the button branch leaves \<^verbatim>\<open>cascade_attr\<close>
  out of its f-string. The sibling path, a field rendered as a button, does emit the
  marker with the value of the attribute.
\<close>

theorem button_drops_cascade_marker:
  \<open>process_element
     (Element None ''button'' [(''name'', ''b1''), (''cascade'', ''grp1'')] (Some ''Go'') []) False =
     (''<div class=\'button\'>\<newline><button type=\'button\' id=\'b1\' name=\'b1\'>Go</button>\<newline></div>'',
      True) \<and>
   process_element
     (Element None ''field'' [(''name'', ''btn1''), (''cascade'', ''grp1'')] None []) False =
     (''<div class=\'field\'>\<newline><button type=\'button\' id=\'btn1\' name=\'btn1\' data-cascade=\'grp1\'>btn1</button>\<newline></div>'',
      True)\<close>
  by (simp add: button_parts_def field_parts_def button_like_def get_default_def truthy_def
      py_or_def lower_char_def nl_def cascade_attr_of_def sublist_code(3)
      suffix_to_prefix)

section \<open>Choice lists\<close>

text \<open>
  C3 at a choice list of the XFA template namespace with two items of that namespace:
  the list is recognised, by its lower-cased local name, but \<^verbatim>\<open>findall(".//item")\<close> looks
  for the tag \<^verbatim>\<open>item\<close> without a namespace, so no item is found and the select control
  has no option. The same list and items without a namespace give one option for each
  item.
\<close>

theorem choicelist_drops_namespaced_items:
  \<open>process_element
     (Element (Some xfa_ns) ''choiceList'' [(''name'', ''c'')] None
        [Element (Some xfa_ns) ''item'' [] (Some ''A'') [],
         Element (Some xfa_ns) ''item'' [(''value'', ''b'')] (Some ''B'') []]) False =
     (''<div class=\'choicelist\'>\<newline><label for=\'c\'>c</label>\<newline><select id=\'c\' name=\'c\'>\<newline></select>\<newline></div>'',
      False) \<and>
   process_element
     (Element None ''choiceList'' [(''name'', ''c'')] None
        [Element None ''item'' [] (Some ''A'') [],
         Element None ''item'' [(''value'', ''b'')] (Some ''B'') []]) False =
     (''<div class=\'choicelist\'>\<newline><label for=\'c\'>c</label>\<newline><select id=\'c\' name=\'c\'>\<newline><option value=\'A\'>A</option>\<newline><option value=\'b\'>B</option>\<newline></select>\<newline></div>'',
      False)\<close>
  by (simp add: choicelist_parts_def option_part_def option_value_def option_text_def
      findall_def get_default_def truthy_def py_or_def lower_char_def nl_def cascade_attr_of_def
      xfa_ns_def)

section \<open>Input fields\<close>

text \<open>
  C4, as the code has it. An input field renders as a button labelled with its label,
  whatever its \<^verbatim>\<open>type\<close>, when the lower-cased \<^verbatim>\<open>uiType\<close> hint contains \<open>button\<close> or the
  lower-cased name starts with \<open>btn\<close> or \<open>button\<close> or ends with \<open>btn\<close>; otherwise it
  renders as a label and an input of the given type with the value filled in. The name
  defaults to \<open>UnnamedField\<close>, the label to the name, the value to the empty string and
  the type to \<open>text\<close>.
\<close>

theorem field_button_or_input:
  fixes el :: node
  defines "field_name \<equiv> get_default el ''name'' ''UnnamedField''"
  defines "field_label \<equiv> get_default el ''label'' field_name"
  assumes "tag_of el = Some ''field''"
  shows \<open>fst (process_element el req) =
     (if sublist ''button'' (lower (get_default el ''uiType'' [])) \<or>
         prefix ''btn'' (lower field_name) \<or> prefix ''button'' (lower field_name) \<or>
         suffix ''btn'' (lower field_name)
      then ''<div class=\'field\'>\<newline><button type=\'button\' id='' @ [CHR 0x27] @ field_name @
           ''\' name='' @ [CHR 0x27] @ field_name @ [CHR 0x27] @ cascade_attr_of (get el ''cascade'') @
           ''>'' @ field_label @ ''</button>\<newline></div>''
      else ''<div class=\'field\'>\<newline><label for='' @ [CHR 0x27] @ field_name @ ''\'>'' @ field_label @
           ''</label>\<newline><input type='' @ [CHR 0x27] @ get_default el ''type'' ''text'' @ ''\' id='' @
           [CHR 0x27] @ field_name @ ''\' name='' @ [CHR 0x27] @ field_name @ ''\' value='' @
           [CHR 0x27] @ get_default el ''value'' [] @ [CHR 0x27] @ cascade_attr_of (get el ''cascade'') @
           '' />\<newline></div>'')\<close>
proof -
  have "fst (process_element el req) = join nl (field_parts el (cascade_attr_of (get el ''cascade'')))"
    using assms(3) by (rule fst_process_element_leaf)
  then show ?thesis
    by (simp add: field_parts_def button_like_def Let_def nl_def field_name_def field_label_def)
qed

text \<open>
  The theorem at a field named \<open>btnSubmit\<close> of type \<open>password\<close>, which renders as a
  button, and at a field named \<open>txtName\<close> of type \<open>text\<close> with the value \<open>Ann\<close>, which
  renders as a labelled input.
\<close>

theorem field_button_or_input_witness:
  \<open>fst (process_element
      (Element None ''field'' [(''name'', ''btnSubmit''), (''type'', ''password'')] None []) False) =
     ''<div class=\'field\'>\<newline><button type=\'button\' id=\'btnSubmit\' name=\'btnSubmit\'>btnSubmit</button>\<newline></div>'' \<and>
   fst (process_element
      (Element None ''field'' [(''name'', ''txtName''), (''type'', ''text''), (''value'', ''Ann'')] None [])
      False) =
     ''<div class=\'field\'>\<newline><label for=\'txtName\'>txtName</label>\<newline><input type=\'text\' id=\'txtName\' name=\'txtName\' value=\'Ann\' />\<newline></div>''\<close>
  using
    field_button_or_input [of
      "Element None ''field'' [(''name'', ''btnSubmit''), (''type'', ''password'')] None []" False]
    field_button_or_input [of
      "Element None ''field'' [(''name'', ''txtName''), (''type'', ''text''), (''value'', ''Ann'')] None []"
      False]
  by (simp add: lower_char_def get_default_def cascade_attr_of_def truthy_def
      sublist_code(3) suffix_to_prefix)

text \<open>
  C4 as the specification states it fails: the hint \<open>Button\<close> does not contain
  \<open>button\<close>, and the name \<open>x\<close> neither starts with \<open>btn\<close> or \<open>button\<close> nor ends with
  \<open>btn\<close>, yet the field renders as a button and not as an input, since the hint is
  lower-cased before it is searched.
\<close>

theorem field_hint_case_counterexample:
  \<open>\<not> sublist ''button''
       (get_default (Element None ''field'' [(''name'', ''x''), (''uiType'', ''Button'')] None [])
          ''uiType'' []) \<and>
   \<not> prefix ''btn'' (lower ''x'') \<and> \<not> prefix ''button'' (lower ''x'') \<and>
   \<not> suffix ''btn'' (lower ''x'') \<and>
   fst (process_element
      (Element None ''field'' [(''name'', ''x''), (''uiType'', ''Button'')] None []) False) =
     ''<div class=\'field\'>\<newline><button type=\'button\' id=\'x\' name=\'x\'>x</button>\<newline></div>''\<close>
  by (simp add: field_parts_def button_like_def get_default_def truthy_def py_or_def 
      lower_char_def nl_def cascade_attr_of_def sublist_code(3) suffix_to_prefix)

section \<open>Script aggregation\<close>

text \<open>
  C5, as the code has it. The aggregated script is made of the texts of the script
  elements (tag \<^verbatim>\<open>script\<close> in the XFA template namespace) among the descendants of the
  root, in document order, the empty and the missing texts left out, joined by a single
  line break; nothing is reordered and nothing is dropped as a duplicate. When the script
  descendants have the texts \<open>a();\<close> and \<open>b();\<close>, the result is \<open>a();\<close>, a line break,
  \<open>b();\<close>.
\<close>

theorem extract_all_js_descendant_scripts:
  \<open>extract_all_js xfa_xml =
     join nl (filter (\<lambda>s. s \<noteq> [])
       (map (\<lambda>n. case node_text n of Some s \<Rightarrow> s | None \<Rightarrow> [])
         (filter (has_tag (Some xfa_ns) ''script'') (descendants xfa_xml)))) \<and>
   (map node_text (filter (has_tag (Some xfa_ns) ''script'') (descendants xfa_xml)) =
      [Some ''a();'', Some ''b();''] \<longrightarrow>
    extract_all_js xfa_xml = ''a();\<newline>b();'')\<close>
proof -
  have py_or_nil: "(\<lambda>n. py_or (node_text n) []) = (\<lambda>n. case node_text n of Some s \<Rightarrow> s | None \<Rightarrow> [])"
    by (rule ext) (simp add: py_or_def split: option.splits)
  have general: "extract_all_js xfa_xml =
     join nl (filter (\<lambda>s. s \<noteq> [])
       (map (\<lambda>n. case node_text n of Some s \<Rightarrow> s | None \<Rightarrow> [])
         (filter (has_tag (Some xfa_ns) ''script'') (descendants xfa_xml))))"
    by (simp add: extract_all_js_def js_parts_eq findall_def py_or_nil)
  have example: "extract_all_js xfa_xml = ''a();\<newline>b();''"
    if texts: "map node_text (filter (has_tag (Some xfa_ns) ''script'') (descendants xfa_xml)) =
      [Some ''a();'', Some ''b();'']"
  proof -
    have "map (\<lambda>n. case node_text n of Some s \<Rightarrow> s | None \<Rightarrow> [])
            (filter (has_tag (Some xfa_ns) ''script'') (descendants xfa_xml)) =
          map (\<lambda>t. case t of Some s \<Rightarrow> s | None \<Rightarrow> [])
            (map node_text (filter (has_tag (Some xfa_ns) ''script'') (descendants xfa_xml)))"
      by (simp add: comp_def)
    then show ?thesis
      unfolding general texts by (simp add: nl_def)
  qed
  from general example show ?thesis by blast
qed

text \<open>
  The theorem at a tree whose root holds a script \<open>a();\<close> with a nested script \<open>b();\<close>,
  a comment, a script without text and a script element outside the namespace.
\<close>

theorem extract_all_js_descendant_scripts_witness:
  \<open>extract_all_js
     (Element (Some xfa_ns) ''template'' [] None
        [Element (Some xfa_ns) ''script'' [] (Some ''a();'')
           [Element (Some xfa_ns) ''script'' [] (Some ''b();'') []],
         Other,
         Element None ''script'' [] (Some ''c();'') []]) = ''a();\<newline>b();''\<close>
  using extract_all_js_descendant_scripts [of
     "Element (Some xfa_ns) ''template'' [] None
        [Element (Some xfa_ns) ''script'' [] (Some ''a();'')
           [Element (Some xfa_ns) ''script'' [] (Some ''b();'') []],
         Other,
         Element None ''script'' [] (Some ''c();'') []]"]
  by (simp add: xfa_ns_def nl_def)

text \<open>
  C5 as the specification states it fails at the root: a tree that is a single script
  element with the text \<open>a();\<close> gives the empty script, since the path \<^verbatim>\<open>.//\<close> ranges over
  the descendants of the root and not over the root.
\<close>

theorem extract_all_js_root_counterexample:
  \<open>has_tag (Some xfa_ns) ''script'' (Element (Some xfa_ns) ''script'' [] (Some ''a();'') []) \<and>
   node_text (Element (Some xfa_ns) ''script'' [] (Some ''a();'') []) = Some ''a();'' \<and>
   extract_all_js (Element (Some xfa_ns) ''script'' [] (Some ''a();'') []) = []\<close>
  by (simp add: extract_all_js_def findall_def)

section \<open>Exclusive groups\<close>

text \<open>
  C6 at an exclusive group with two choices spelt \<^verbatim>\<open>exclChoice\<close>, as the comment of the
  branch spells them: the group is recognised, by its lower-cased local name, but
  \<^verbatim>\<open>findall(".//exclchoice")\<close> compares the tag as it is written, so no choice is found and
  no radio button is emitted. The same group with choices spelt \<^verbatim>\<open>exclchoice\<close> gives one
  radio button for each choice, all with the name of the group.
\<close>

theorem exclgroup_drops_camelcase_choices:
  \<open>process_element
     (Element None ''exclGroup'' [(''name'', ''g'')] None
        [Element None ''exclChoice'' [] (Some ''Yes'') [],
         Element None ''exclChoice'' [(''value'', ''n'')] (Some ''No'') []]) False =
     (''<div class=\'exclgroup\'>\<newline></div>'', False) \<and>
   process_element
     (Element None ''exclGroup'' [(''name'', ''g'')] None
        [Element None ''exclchoice'' [] (Some ''Yes'') [],
         Element None ''exclchoice'' [(''value'', ''n'')] (Some ''No'') []]) False =
     (''<div class=\'exclgroup\'>\<newline><label><input type=\'radio\' name=\'g\' value=\'Yes\'/> Yes</label>\<newline><label><input type=\'radio\' name=\'g\' value=\'n\'/> No</label>\<newline></div>'',
      False)\<close>
  by (simp add: exclgroup_parts_def radio_part_def option_value_def option_text_def
      findall_def get_default_def truthy_def py_or_def lower_char_def nl_def cascade_attr_of_def)

section \<open>The script section of the document\<close>

text \<open>
  C7. For every tree the document is the fixed head and style, the rendered body, the
  opening of the script section, and then, in this order and each separated from the
  next by a line break where the source concatenates with one: the linkage script (the
  empty string when the flag is not set), the adapter with the translator, the host and
  form objects, the font object, the guarded executor, the advanced namespace, the
  aggregated script of the tree, and the click dispatcher; the closing of the document
  follows. Each piece is identified by the line of the source it starts with.
\<close>

theorem script_section_order:
  \<open>build_ui_interpreter_stacked xfa_xml =
     html_doc_head @ ui_title @ html_doc_style @ body_content xfa_xml @ ''\<newline><script>\<newline>'' @
     cascade_js xfa_xml @ nl @
     adapter @ nl @
     xfa_host_form_js @ xfa_font_js @ xfa_executor_js @ xfa_advanced_js @ nl @
     extract_all_js xfa_xml @ nl @
     default_bindings_js @
     ''\<newline></script>\<newline></body>\<newline></html>\<newline>'' \<and>
   cascade_js xfa_xml = (if cascade_required xfa_xml then cascade_script else []) \<and>
   prefix ''\<newline>document.addEventListener(\'DOMContentLoaded\', function(){'' cascade_script \<and>
   prefix ''\<newline>if (typeof schCar === \'undefined\') {'' adapter \<and>
   prefix ''\<newline>// Advanced XFA JavaScript Runtime Support'' xfa_host_form_js \<and>
   prefix ''// Define a default font object'' xfa_font_js \<and>
   prefix ''function executeXFAJavaScript(jsCode) {'' xfa_executor_js \<and>
   prefix ''// Advanced runtime features: asynchronous execution and event registration.''
     xfa_advanced_js \<and>
   prefix ''\<newline>document.addEventListener("DOMContentLoaded", function(){'' default_bindings_js\<close>
proof -
  have doc: "build_ui_interpreter_stacked xfa_xml =
     html_doc_head @ ui_title @ html_doc_style @ body_content xfa_xml @ html_doc_script_open @
     cascade_js xfa_xml @ nl @
     adapter @ nl @
     xfa_host_form_js @ xfa_font_js @ xfa_executor_js @ xfa_advanced_js @ nl @
     extract_all_js xfa_xml @ nl @
     default_bindings_js @ html_doc_tail"
    by (simp add: build_ui_interpreter_stacked_def full_js_def ui_js_def xfa_runtime_js_def)
  have p1: \<open>prefix ''\<newline>document.addEventListener(\'DOMContentLoaded\', function(){'' cascade_script\<close>
    by (simp add: cascade_script_def)
  have p2: \<open>prefix ''\<newline>if (typeof schCar === \'undefined\') {'' adapter\<close>
    by (simp add: adapter_def)
  have p3: \<open>prefix ''\<newline>// Advanced XFA JavaScript Runtime Support'' xfa_host_form_js\<close>
    by (simp add: xfa_host_form_js_def)
  have p4: \<open>prefix ''// Define a default font object'' xfa_font_js\<close>
    by (simp add: xfa_font_js_def)
  have p5: \<open>prefix ''function executeXFAJavaScript(jsCode) {'' xfa_executor_js\<close>
    by (simp add: xfa_executor_js_def)
  have p6: \<open>prefix ''// Advanced runtime features: asynchronous execution and event registration.''
     xfa_advanced_js\<close>
    by (simp add: xfa_advanced_js_def)
  have p7: \<open>prefix ''\<newline>document.addEventListener("DOMContentLoaded", function(){'' default_bindings_js\<close>
    by (simp add: default_bindings_js_def)
  have script_open: \<open>html_doc_script_open = ''\<newline><script>\<newline>''\<close>
    by (simp add: html_doc_script_open_def)
  have script_close: \<open>html_doc_tail = ''\<newline></script>\<newline></body>\<newline></html>\<newline>''\<close>
    by (simp add: html_doc_tail_def)
  show ?thesis
    unfolding doc script_open script_close using p1 p2 p3 p4 p5 p6 p7 by (simp add: cascade_js_def)
qed

text \<open>
  The theorem at a tree with a template that holds one script \<open>a();\<close> and no linkage
  attribute: the linkage piece is empty and the aggregated piece is \<open>a();\<close>.
\<close>

theorem script_section_order_witness:
  \<open>build_ui_interpreter_stacked
     (Element (Some xfa_ns) ''template'' [] None
        [Element (Some xfa_ns) ''script'' [] (Some ''a();'') []]) =
     html_doc_head @ ui_title @ html_doc_style @
     ''<div class=\'xfa-container\'>\<newline>\<newline></div>'' @ ''\<newline><script>\<newline>'' @
     [] @ nl @
     adapter @ nl @
     xfa_host_form_js @ xfa_font_js @ xfa_executor_js @ xfa_advanced_js @ nl @
     ''a();'' @ nl @
     default_bindings_js @
     ''\<newline></script>\<newline></body>\<newline></html>\<newline>''\<close>
proof -
  have body: \<open>body_content (Element (Some xfa_ns) ''template'' [] None
        [Element (Some xfa_ns) ''script'' [] (Some ''a();'') []]) =
      ''<div class=\'xfa-container\'>\<newline>\<newline></div>''\<close>
    by (simp add: body_content_def template_of_def find_node_def findall_def Let_def 
      lower_char_def xfa_ns_def)
  have flag: "\<not> cascade_required (Element (Some xfa_ns) ''template'' [] None
        [Element (Some xfa_ns) ''script'' [] (Some ''a();'') []])"
    by (simp add: cascade_required_def template_of_def find_node_def findall_def Let_def 
      lower_char_def xfa_ns_def truthy_def)
  have js: "extract_all_js (Element (Some xfa_ns) ''template'' [] None
        [Element (Some xfa_ns) ''script'' [] (Some ''a();'') []]) = ''a();''"
    by (simp add: extract_all_js_def findall_def truthy_def py_or_def)
  show ?thesis
    using script_section_order [of "Element (Some xfa_ns) ''template'' [] None
        [Element (Some xfa_ns) ''script'' [] (Some ''a();'') []]"]
    unfolding body js by (simp add: flag)
qed

section \<open>Repeated interpretation\<close>

text \<open>
  C8. A run of the interpreter reads the tree and nothing else, so the document is a
  function of the tree; the one piece of state that a run writes is the flag
  \<^verbatim>\<open>cascade_required\<close>. That state cannot make a repeated run differ: the fragment of a
  node is the same whatever the flag is on entry; a pass over a node that starts from
  the flag an earlier pass over the same node left returns the same fragment and the
  same flag; and so a run that inherited the flag of an earlier run over the same tree,
  instead of starting it at false, would produce the same document, character for
  character.
\<close>

theorem repeated_interpretation_same_output:
  \<open>fst (process_element el req) = fst (process_element el req') \<and>
   process_element el (snd (process_element el req)) = process_element el req \<and>
   html_doc_head @ ui_title @ html_doc_style @
     (''<div class=\'xfa-container\'>\<newline>'' @
      fst (process_element (template_of xfa_xml) (cascade_required xfa_xml)) @ ''\<newline></div>'') @
     html_doc_script_open @
     ((if snd (process_element (template_of xfa_xml) (cascade_required xfa_xml))
       then cascade_script else []) @ nl @ ui_js xfa_xml) @
     html_doc_tail =
   build_ui_interpreter_stacked xfa_xml\<close>
proof -
  have again: "process_element n (snd (process_element n r)) = process_element n r" for n r
  proof (rule prod_eqI)
    show "fst (process_element n (snd (process_element n r))) = fst (process_element n r)"
      by (rule fragment_independent_of_flag)
    show "snd (process_element n (snd (process_element n r))) = snd (process_element n r)"
      by (auto simp: flag_after_traversal(1))
  qed
  have second: "process_element (template_of xfa_xml) (cascade_required xfa_xml) =
      process_element (template_of xfa_xml) False"
    unfolding cascade_required_def by (rule again)
  have document: \<open>html_doc_head @ ui_title @ html_doc_style @
     (''<div class=\'xfa-container\'>\<newline>'' @
      fst (process_element (template_of xfa_xml) (cascade_required xfa_xml)) @ ''\<newline></div>'') @
     html_doc_script_open @
     ((if snd (process_element (template_of xfa_xml) (cascade_required xfa_xml))
       then cascade_script else []) @ nl @ ui_js xfa_xml) @
     html_doc_tail =
   build_ui_interpreter_stacked xfa_xml\<close>
    unfolding second
    by (simp add: build_ui_interpreter_stacked_def body_content_def full_js_def cascade_js_def
        cascade_required_def)
  from fragment_independent_of_flag(1) [of el req req'] again [of el req] document
  show ?thesis by (intro conjI)
qed

section \<open>No escaping\<close>

text \<open>
  C10, as the code has it. For every node the fragment is the fixed markup of its branch
  around the attribute values and the direct text that the branch reads, each standing
  exactly as it is in the tree, whatever characters it holds: no character is escaped,
  replaced or dropped. The one exception is the text of a decorative block, which is
  stripped first: the block shows its text without the white space at its two ends, and
  every character between them as it is. The theorem gives the fragment of every branch:
  field (as a button and as an input), button, static text, text edit, numeric edit,
  choice list, decorative block, exclusive group, check button, container, any other
  element, and a node that is not an element. A value read with a default is the
  attribute itself whenever the attribute is present.
\<close>

theorem fragments_hold_values_verbatim:
  \<open>(tag_of el = Some ''field'' \<longrightarrow>
      fst (process_element el req) =
        (if button_like el
         then ''<div class=\'field\'>\<newline><button type=\'button\' id='' @ [CHR 0x27] @
              get_default el ''name'' ''UnnamedField'' @ ''\' name='' @ [CHR 0x27] @
              get_default el ''name'' ''UnnamedField'' @ [CHR 0x27] @
              cascade_attr_of (get el ''cascade'') @ ''>'' @
              get_default el ''label'' (get_default el ''name'' ''UnnamedField'') @
              ''</button>\<newline></div>''
         else ''<div class=\'field\'>\<newline><label for='' @ [CHR 0x27] @
              get_default el ''name'' ''UnnamedField'' @ ''\'>'' @
              get_default el ''label'' (get_default el ''name'' ''UnnamedField'') @
              ''</label>\<newline><input type='' @ [CHR 0x27] @ get_default el ''type'' ''text'' @
              ''\' id='' @ [CHR 0x27] @ get_default el ''name'' ''UnnamedField'' @
              ''\' name='' @ [CHR 0x27] @ get_default el ''name'' ''UnnamedField'' @
              ''\' value='' @ [CHR 0x27] @ get_default el ''value'' [] @ [CHR 0x27] @
              cascade_attr_of (get el ''cascade'') @ '' />\<newline></div>'')) \<and>
   (tag_of el = Some ''button'' \<longrightarrow>
      fst (process_element el req) =
        ''<div class=\'button\'>\<newline><button type=\'button\' id='' @ [CHR 0x27] @
        get_default el ''name'' ''button'' @ ''\' name='' @ [CHR 0x27] @
        get_default el ''name'' ''button'' @ ''\'>'' @
        (case node_text el of Some s \<Rightarrow> if s = [] then ''Button'' else s | None \<Rightarrow> ''Button'') @
        ''</button>\<newline></div>'') \<and>
   (tag_of el = Some ''text'' \<longrightarrow>
      fst (process_element el req) =
        ''<div class=\'static-text\'>'' @ (case node_text el of Some s \<Rightarrow> s | None \<Rightarrow> []) @
        ''</div>'') \<and>
   (tag_of el = Some ''textedit'' \<longrightarrow>
      fst (process_element el req) =
        ''<div class=\'textedit\'>\<newline><input type=\'text\' id='' @ [CHR 0x27] @
        get_default el ''name'' ''TextEdit'' @ ''\' name='' @ [CHR 0x27] @
        get_default el ''name'' ''TextEdit'' @ ''\' value='' @ [CHR 0x27] @
        get_default el ''value'' [] @ [CHR 0x27] @ cascade_attr_of (get el ''cascade'') @
        '' />\<newline></div>'') \<and>
   (tag_of el = Some ''numericedit'' \<longrightarrow>
      fst (process_element el req) =
        ''<div class=\'numericedit\'>\<newline><input type=\'number\' id='' @ [CHR 0x27] @
        get_default el ''name'' ''NumericEdit'' @ ''\' name='' @ [CHR 0x27] @
        get_default el ''name'' ''NumericEdit'' @ ''\' value='' @ [CHR 0x27] @
        get_default el ''value'' [] @ [CHR 0x27] @ cascade_attr_of (get el ''cascade'') @
        '' />\<newline></div>'') \<and>
   (tag_of el = Some ''choicelist'' \<longrightarrow>
      fst (process_element el req) =
        join nl
         ([''<div class=\'choicelist\'>'',
           ''<label for='' @ [CHR 0x27] @ get_default el ''name'' ''ChoiceList'' @ ''\'>'' @
             get_default el ''name'' ''ChoiceList'' @ ''</label>'',
           ''<select id='' @ [CHR 0x27] @ get_default el ''name'' ''ChoiceList'' @ ''\' name='' @
             [CHR 0x27] @ get_default el ''name'' ''ChoiceList'' @ [CHR 0x27] @
             cascade_attr_of (get el ''cascade'') @ ''>''] @
          map (\<lambda>item. ''<option value='' @ [CHR 0x27] @ option_value item @ ''\'>'' @
                 option_text item @ ''</option>'')
            (filter (has_tag None ''item'') (descendants el)) @
          [''</select>'', ''</div>''])) \<and>
   (tag_of el = Some ''exclgroup'' \<longrightarrow>
      fst (process_element el req) =
        join nl
         ([''<div class=\'exclgroup\'>''] @
          map (\<lambda>choice. ''<label><input type=\'radio\' name='' @ [CHR 0x27] @
                 get_default el ''name'' ''ExclGroup'' @ ''\' value='' @ [CHR 0x27] @
                 option_value choice @ [CHR 0x27] @ cascade_attr_of (get el ''cascade'') @
                 ''/> '' @ option_text choice @ ''</label>'')
            (filter (has_tag None ''exclchoice'') (descendants el)) @
          [''</div>''])) \<and>
   (tag_of el = Some ''checkbutton'' \<longrightarrow>
      fst (process_element el req) =
        ''<div class=\'checkbutton\'>\<newline><label><input type=\'checkbox\' id='' @ [CHR 0x27] @
        get_default el ''name'' ''CheckButton'' @ ''\' name='' @ [CHR 0x27] @
        get_default el ''name'' ''CheckButton'' @ [CHR 0x27] @
        cascade_attr_of (get el ''cascade'') @ ''/> '' @ get_default el ''name'' ''CheckButton'' @
        ''</label>\<newline></div>'') \<and>
   (tag_of el = Some ''subform'' \<longrightarrow>
      fst (process_element el req) =
        join nl
         ([''<div class=\'subform\'>'', ''<h2>'' @ get_default el ''name'' ''Subform'' @ ''</h2>''] @
          fst (process_children (children el) (if truthy (get el ''cascade'') then True else req)) @
          [''</div>''])) \<and>
   (tag_of el = Some ''draw'' \<longrightarrow>
      fst (process_element el req) =
        join nl
         ([''<div class=\'draw\' style=\'border:1px solid #aaa; padding:5px;\'>''] @
          (case node_text el of
             Some s \<Rightarrow> if strip s \<noteq> [] then [''<span>'' @ strip s @ ''</span>''] else []
           | None \<Rightarrow> []) @
          fst (process_children (children el) (if truthy (get el ''cascade'') then True else req)) @
          [''</div>''])) \<and>
   (\<forall>tg. tag_of el = Some tg \<longrightarrow>
      tg \<notin> set [''subform'', ''field'', ''button'', ''text'', ''textedit'', ''numericedit'',
                  ''choicelist'', ''draw'', ''exclgroup'', ''checkbutton''] \<longrightarrow>
      fst (process_element el req) =
        join nl
         (fst (process_children (children el) (if truthy (get el ''cascade'') then True else req)))) \<and>
   (tag_of el = None \<longrightarrow> fst (process_element el req) = []) \<and>
   (\<forall>s. (\<exists>ls rs. set ls \<subseteq> set whitespace \<and> set rs \<subseteq> set whitespace \<and>
             s = concat ls @ strip s @ concat rs) \<and>
        (\<forall>w \<in> set whitespace. \<not> prefix w (strip s) \<and> \<not> suffix w (strip s))) \<and>
   (\<forall>k v d. get el k = Some v \<longrightarrow> get_default el k d = v) \<and>
   cascade_attr_of (get el ''cascade'') =
     (case get el ''cascade'' of
        Some c \<Rightarrow> if c = [] then [] else '' data-cascade='' @ [CHR 0x27] @ c @ [CHR 0x27]
      | None \<Rightarrow> []) \<and>
   (\<forall>item. option_value item =
      (case get item ''value'' of Some v \<Rightarrow> v
       | None \<Rightarrow> (case node_text item of Some s \<Rightarrow> s | None \<Rightarrow> []))) \<and>
   (\<forall>item. option_text item =
      (case node_text item of Some s \<Rightarrow> if s = [] then option_value item else s
       | None \<Rightarrow> option_value item))\<close>
proof -
  have field_eq: "fst (process_element el req) =
      join nl (field_parts el (cascade_attr_of (get el ''cascade'')))" if "tag_of el = Some ''field''"
    using that by (rule fst_process_element_leaf)
  have button_eq: "fst (process_element el req) = join nl (button_parts el)"
    if "tag_of el = Some ''button''"
    using that by (rule fst_process_element_leaf)
  have text_eq: "fst (process_element el req) = join nl (text_parts el)"
    if "tag_of el = Some ''text''"
    using that by (rule fst_process_element_leaf)
  have textedit_eq: "fst (process_element el req) =
      join nl (textedit_parts el (cascade_attr_of (get el ''cascade'')))"
    if "tag_of el = Some ''textedit''"
    using that by (rule fst_process_element_leaf)
  have numericedit_eq: "fst (process_element el req) =
      join nl (numericedit_parts el (cascade_attr_of (get el ''cascade'')))"
    if "tag_of el = Some ''numericedit''"
    using that by (rule fst_process_element_leaf)
  have choicelist_eq: "fst (process_element el req) =
      join nl (choicelist_parts el (cascade_attr_of (get el ''cascade'')))"
    if "tag_of el = Some ''choicelist''"
    using that by (rule fst_process_element_leaf)
  have exclgroup_eq: "fst (process_element el req) =
      join nl (exclgroup_parts el (cascade_attr_of (get el ''cascade'')))"
    if "tag_of el = Some ''exclgroup''"
    using that by (rule fst_process_element_leaf)
  have checkbutton_eq: "fst (process_element el req) =
      join nl (checkbutton_parts el (cascade_attr_of (get el ''cascade'')))"
    if "tag_of el = Some ''checkbutton''"
    using that by (rule fst_process_element_leaf)
  have subform_eq: "fst (process_element el req) =
      join nl (subform_open el @
        fst (process_children (children el) (if truthy (get el ''cascade'') then True else req)) @
        [''</div>''])"
    if "tag_of el = Some ''subform''"
    using that by (cases el) (simp_all add: Let_def split: prod.splits)
  have draw_eq: "fst (process_element el req) =
      join nl (draw_open el @
        fst (process_children (children el) (if truthy (get el ''cascade'') then True else req)) @
        [''</div>''])"
    if "tag_of el = Some ''draw''"
    using that by (cases el) (simp_all add: Let_def split: prod.splits)
  have other_eq: "fst (process_element el req) =
      join nl (fst (process_children (children el)
        (if truthy (get el ''cascade'') then True else req)))"
    if "tag_of el = Some tg"
      and "tg \<notin> set [''subform'', ''field'', ''button'', ''text'', ''textedit'', ''numericedit'',
                  ''choicelist'', ''draw'', ''exclgroup'', ''checkbutton'']" for tg
    using that by (cases el) (auto simp: Let_def split: prod.splits)
  have draw_open_eq: \<open>draw_open el =
      [''<div class=\'draw\' style=\'border:1px solid #aaa; padding:5px;\'>''] @
      (case node_text el of
         Some s \<Rightarrow> if strip s \<noteq> [] then [''<span>'' @ strip s @ ''</span>''] else []
       | None \<Rightarrow> [])\<close>
  proof -
    have "strip [] = []"
      using strip_keeps_the_middle [of "[]"] by auto
    then show ?thesis
      by (auto simp: draw_open_def truthy_def py_or_def split: option.splits)
  qed
  show ?thesis
    apply (intro conjI impI allI ballI)
    subgoal using field_eq by (simp add: field_parts_def Let_def nl_def)
    subgoal using button_eq by (simp add: button_parts_def Let_def nl_def py_or_def split: option.splits)
    subgoal using text_eq by (simp add: text_parts_def Let_def py_or_def split: option.splits)
    subgoal using textedit_eq by (simp add: textedit_parts_def Let_def nl_def)
    subgoal using numericedit_eq by (simp add: numericedit_parts_def Let_def nl_def)
    subgoal using choicelist_eq
      by (simp add: choicelist_parts_def Let_def findall_def option_part_eq)
    subgoal using exclgroup_eq
      by (simp add: exclgroup_parts_def Let_def findall_def radio_part_eq)
    subgoal using checkbutton_eq by (simp add: checkbutton_parts_def Let_def nl_def)
    subgoal using subform_eq by (simp add: subform_open_def Let_def)
    subgoal using draw_eq unfolding draw_open_eq by simp
    subgoal for tg using other_eq [of tg] by simp
    subgoal by (cases el) simp_all
    subgoal for s by (rule strip_keeps_the_middle)
    subgoal for s w using strip_leaves_no_whitespace(1) [of w s] by simp
    subgoal for s w using strip_leaves_no_whitespace(2) [of w s] by simp
    subgoal by (simp add: get_default_def)
    subgoal by (simp add: cascade_attr_of_def truthy_def py_or_def split: option.splits)
    subgoal by (rule option_value_eq)
    subgoal by (rule option_text_eq)
    done
qed

text \<open>
  The theorem at a field with a quote in its name and angle brackets and an ampersand in
  its value, at a static text that holds markup, an ampersand and quotes, and at a
  decorative block whose text has a blank and a no-break space before it and two blanks
  after it.
\<close>

theorem fragments_hold_values_verbatim_witness:
  \<open>fst (process_element
      (Element None ''field'' [(''name'', ''o\'k''), (''value'', ''x<y&z>'')] None []) False) =
     ''<div class=\'field\'>\<newline><label for=\'o\'k\'>o\'k</label>\<newline><input type=\'text\' id=\'o\'k\' name=\'o\'k\' value=\'x<y&z>\' />\<newline></div>'' \<and>
   fst (process_element
      (Element None ''text'' [] (Some ''<b>Tom & \'Jerry\'</b>'') []) False) =
     ''<div class=\'static-text\'><b>Tom & \'Jerry\'</b></div>'' \<and>
   fst (process_element
      (Element None ''draw'' [] (Some ('' '' @ [CHR 0xC2, CHR 0xA0] @ ''a<b & \'c\'  '')) []) False) =
     ''<div class=\'draw\' style=\'border:1px solid #aaa; padding:5px;\'>\<newline><span>a<b & \'c\'</span>\<newline></div>''\<close>
proof -
  note at_field =
    fragments_hold_values_verbatim [of
      \<open>Element None ''field'' [(''name'', ''o\'k''), (''value'', ''x<y&z>'')] None []\<close> False,
      THEN conjunct1]
  note at_text =
    fragments_hold_values_verbatim [of
      \<open>Element None ''text'' [] (Some ''<b>Tom & \'Jerry\'</b>'') []\<close> False,
      THEN conjunct2, THEN conjunct2, THEN conjunct1]
  note at_draw =
    fragments_hold_values_verbatim [of
      \<open>Element None ''draw'' [] (Some ('' '' @ [CHR 0xC2, CHR 0xA0] @ ''a<b & \'c\'  '')) []\<close>
      False,
      THEN conjunct2, THEN conjunct2, THEN conjunct2, THEN conjunct2, THEN conjunct2,
      THEN conjunct2, THEN conjunct2, THEN conjunct2, THEN conjunct2, THEN conjunct1]
  have stripped: \<open>strip ('' '' @ [CHR 0xC2, CHR 0xA0] @ ''a<b & \'c\'  '') = ''a<b & \'c'' @ [CHR 0x27]\<close>
    by (simp add: strip_def lstrip_def rstrip_def whitespace_def strip_prefixes.simps)
  have field_fragment: \<open>fst (process_element
      (Element None ''field'' [(''name'', ''o\'k''), (''value'', ''x<y&z>'')] None []) False) =
     ''<div class=\'field\'>\<newline><label for=\'o\'k\'>o\'k</label>\<newline><input type=\'text\' id=\'o\'k\' name=\'o\'k\' value=\'x<y&z>\' />\<newline></div>''\<close>
    using at_field
    by (simp add: lower_char_def button_like_def get_default_def cascade_attr_of_def
        truthy_def sublist_code(3) suffix_to_prefix)
  have text_fragment: \<open>fst (process_element
      (Element None ''text'' [] (Some ''<b>Tom & \'Jerry\'</b>'') []) False) =
     ''<div class=\'static-text\'><b>Tom & \'Jerry\'</b></div>''\<close>
    using at_text by (simp add: lower_char_def)
  have draw_fragment: \<open>fst (process_element
      (Element None ''draw'' [] (Some ('' '' @ [CHR 0xC2, CHR 0xA0] @ ''a<b & \'c\'  '')) []) False) =
     ''<div class=\'draw\' style=\'border:1px solid #aaa; padding:5px;\'>\<newline><span>a<b & \'c\'</span>\<newline></div>''\<close>
    using at_draw stripped by (simp add: lower_char_def truthy_def nl_def)
  from field_fragment text_fragment draw_fragment show ?thesis
    by (intro conjI)
qed

text \<open>
  C10 as the specification states it fails at a decorative block: the direct text
  \<^verbatim>\<open> a<b \<close>, with a blank at each end, is not in the fragment as it is; the fragment
  holds \<^verbatim>\<open>a<b\<close>, without the two blanks.
\<close>

theorem draw_text_stripped_counterexample:
  \<open>node_text (Element None ''draw'' [] (Some '' a<b '') []) = Some '' a<b '' \<and>
   fst (process_element (Element None ''draw'' [] (Some '' a<b '') []) False) =
     ''<div class=\'draw\' style=\'border:1px solid #aaa; padding:5px;\'>\<newline><span>a<b</span>\<newline></div>'' \<and>
   \<not> sublist '' a<b ''
       (fst (process_element (Element None ''draw'' [] (Some '' a<b '') []) False))\<close>
proof -
  have stripped: "strip '' a<b '' = ''a<b''"
    by (simp add: strip_def lstrip_def rstrip_def whitespace_def strip_prefixes.simps)
  have fragment: \<open>fst (process_element (Element None ''draw'' [] (Some '' a<b '') []) False) =
     ''<div class=\'draw\' style=\'border:1px solid #aaa; padding:5px;\'>\<newline><span>a<b</span>\<newline></div>''\<close>
    by (simp add: draw_open_def truthy_def py_or_def stripped lower_char_def nl_def Let_def
        cascade_attr_of_def)
  show ?thesis
    unfolding fragment by (simp add: sublist_code(3))
qed

end
